theory Spec2Isabelle
  imports Complex_Main
begin

section \<open>The download service of \<open>src/lib/webtorrent-service.ts\<close>\<close>

text \<open>
  The service keeps a WebTorrent client (the external engine), a download history that is
  mirrored into \<open>localStorage\<close>, and derives a display status for every torrent of the
  engine. The embedding follows the TypeScript source function by function. Conventions:
  \<^item> an optional field \<open>f?: T\<close> is a \<open>T option\<close>, \<open>undefined\<close> being \<open>None\<close>;
  \<^item> instants (\<open>Date.now()\<close>, \<open>Date.getTime()\<close>) are integers, milliseconds since the
    epoch; a \<open>Date\<close> and its \<open>toISOString()\<close> rendering are represented by that instant;
  \<^item> rates and ratios are reals, byte counts are integers, the peer count is a natural
    number (the engine reports the size of its connection list);
  \<^item> every reading of the clock made by a function is a parameter of its model;
  \<^item> field names are the source's; the fields of \<open>TorrentProgress\<close> carry the prefix
    \<open>p_\<close> and those of \<open>HistoryItem\<close> the prefix \<open>h_\<close>, and \<open>length\<close>, \<open>done\<close>,
    \<open>name\<close> of a torrent are \<open>length_t\<close>, \<open>done_t\<close>, \<open>name_t\<close>.
\<close>

subsection \<open>Data model\<close>

datatype TorrentProgressStatus =
  Idle | Downloading | Seeding | Paused | Error | Connecting | Done | Metadata | Stalled | No_peers

text \<open>
  \<open>HistoryItem['status']\<close>. The source's \<open>pauseTorrent\<close> also stores the string
  \<open>'paused'\<close> in \<open>statusForHistory\<close>, hence the seventh constructor.
\<close>

datatype HistoryStatus =
  HCompleted | HFailed | HRemoved | HActive | HError | HStalled | HPaused

datatype ItemId = IdString string | IdNumber int

record TorrentFile =
  file_name :: string
  file_length :: int

record Torrent =
  infoHash :: string
  magnetURI :: string
  name_t :: string
  length_t :: int
  ready :: bool
  done_t :: bool
  paused :: bool
  progress :: real
  downloadSpeed :: real
  uploadSpeed :: real
  numPeers :: nat
  timeRemaining :: real
  downloaded :: int
  files :: "TorrentFile list"
  customName :: "string option"
  addedDate :: "int option"
  itemId :: "ItemId option"
  statusForHistory :: "HistoryStatus option"
  lastProgressTime :: "int option"
  noPeersReason :: "string option"

record TorrentProgress =
  p_torrentId :: string
  p_progress :: real
  p_downloadSpeed :: real
  p_uploadSpeed :: real
  p_peers :: nat
  p_remainingTime :: real
  p_downloaded :: int
  p_length :: int
  p_customName :: "string option"
  p_addedDate :: "int option"
  p_itemId :: "ItemId option"
  p_status :: TorrentProgressStatus
  p_noPeersReason :: "string option"

record HistoryItem =
  h_infoHash :: string
  h_magnetURI :: string
  h_name :: string
  h_itemId :: "ItemId option"
  h_addedDate :: int
  h_completedDate :: "int option"
  h_status :: HistoryStatus
  h_size :: "int option"
  h_lastError :: "string option"

definition STALL_TIMEOUT :: int where
  "STALL_TIMEOUT = 30000"

definition NO_PEERS_TIMEOUT :: int where
  "NO_PEERS_TIMEOUT = 60000"

subsection \<open>JavaScript's \<open>||\<close> on optional values\<close>

text \<open>
  \<open>a || b\<close> is \<open>b\<close> when \<open>a\<close> is falsy: \<open>undefined\<close>, the number \<open>0\<close> or the
  empty string.
\<close>

definition num_or :: "int option \<Rightarrow> int \<Rightarrow> int" where
  "num_or a b = (case a of None \<Rightarrow> b | Some v \<Rightarrow> if v = 0 then b else v)"

definition str_or :: "string option \<Rightarrow> string option \<Rightarrow> string option" where
  "str_or a b = (case a of None \<Rightarrow> b | Some v \<Rightarrow> if v = [] then b else Some v)"

subsection \<open>The status classifier: \<open>getTorrentProgress\<close>\<close>

text \<open>
  The function reads the clock twice: \<open>now1\<close> is the reading of the stall test or of the
  refresh of \<open>lastProgressTime\<close> (the two are in exclusive branches), \<open>now2\<close> the reading
  of the no-peers test. It mutates the torrent it is given, so the model returns the
  progress record together with the torrent as it is left.
\<close>

definition getTorrentProgress :: "int \<Rightarrow> int \<Rightarrow> Torrent \<Rightarrow> TorrentProgress \<times> Torrent" where
  "getTorrentProgress now1 now2 torrent =
     (let status0 =
            (if ready torrent then
               (if done_t torrent then (if uploadSpeed torrent > 0 then Seeding else Done)
                else if paused torrent then Paused
                else Downloading)
             else Metadata);
          (status1, torrent1) =
            (if status0 = Downloading \<and> downloadSpeed torrent = 0 \<and> numPeers torrent > 0 then
               (if now1 - num_or (lastProgressTime torrent) now1 > STALL_TIMEOUT
                then (Stalled, torrent) else (status0, torrent))
             else if status0 = Downloading then
               (status0, torrent\<lparr>lastProgressTime := Some now1\<rparr>)
             else (status0, torrent));
          (status2, torrent2) =
            (if status1 \<noteq> Done \<and> status1 \<noteq> Seeding \<and> numPeers torrent1 = 0
                \<and> now2 - num_or (addedDate torrent1) 0 > NO_PEERS_TIMEOUT
             then (No_peers, torrent1\<lparr>noPeersReason := Some ''No peers found after 60 seconds.''\<rparr>)
             else (status1, torrent1))
      in (\<lparr>p_torrentId = infoHash torrent2,
           p_progress = progress torrent2,
           p_downloadSpeed = downloadSpeed torrent2,
           p_uploadSpeed = uploadSpeed torrent2,
           p_peers = numPeers torrent2,
           p_remainingTime = timeRemaining torrent2,
           p_downloaded = downloaded torrent2,
           p_length = length_t torrent2,
           p_customName = customName torrent2,
           p_addedDate = addedDate torrent2,
           p_itemId = itemId torrent2,
           p_status = status2,
           p_noPeersReason = noPeersReason torrent2\<rparr>, torrent2))"

text \<open>
  A torrent as the engine holds it right after \<open>client.add\<close> of a magnet link: the
  hash is known, the metadata is not, and the fields the service adds are unset. The
  values of the engine's other counters are placeholders.
\<close>

definition fresh_torrent :: "string \<Rightarrow> string \<Rightarrow> Torrent" where
  "fresh_torrent h uri =
     \<lparr>infoHash = h, magnetURI = uri, name_t = h, length_t = 0,
      ready = False, done_t = False, paused = False,
      progress = 0, downloadSpeed = 0, uploadSpeed = 0, numPeers = 0,
      timeRemaining = 0, downloaded = 0, files = [],
      customName = None, addedDate = None, itemId = None, statusForHistory = None,
      lastProgressTime = None, noPeersReason = None\<rparr>"

subsection \<open>Service state and its environment\<close>

datatype js_error = SyntaxError | SecurityError | QuotaExceededError | TypeError

text \<open>
  Events passed to \<open>this.emit\<close>; a torrent argument is represented by its info hash.
\<close>

datatype Event =
  EvProgress TorrentProgress
| EvAdded string
| EvDone string
| EvError string "string option"
| EvRemoved string
| EvHistoryUpdated

text \<open>
  \<open>client\<close> is \<open>None\<close> while \<open>this.client\<close> is \<open>null\<close> and otherwise holds
  \<open>client.torrents\<close>; \<open>stored\<close> is the \<open>localStorage\<close> item under
  \<open>HISTORY_STORAGE_KEY\<close>; \<open>events\<close> and \<open>console\<close> record what was emitted and
  logged, oldest first.
\<close>

record Service =
  client :: "Torrent list option"
  history :: "HistoryItem list"
  stored :: "string option"
  events :: "Event list"
  console :: "string list"

text \<open>
  What the service uses and does not define: \<open>JSON.parse\<close> (\<open>Inl\<close>: it throws),
  \<open>JSON.stringify\<close>, the faults of \<open>localStorage.getItem\<close> and \<open>setItem\<close>, and
  the engine's resolution of a torrent identifier (magnet link or hash) to an info hash,
  by which \<open>client.get\<close> and \<open>client.add\<close> find a torrent (\<open>None\<close>: the identifier
  is invalid).
\<close>

record Runtime =
  json_parse :: "string \<Rightarrow> js_error + HistoryItem list"
  json_stringify :: "HistoryItem list \<Rightarrow> string"
  get_item_fault :: "js_error option"
  set_item_fault :: "string \<Rightarrow> js_error option"
  parse_id :: "string \<Rightarrow> string option"

definition emit :: "Event \<Rightarrow> Service \<Rightarrow> Service" where
  "emit e s = s\<lparr>events := events s @ [e]\<rparr>"

definition console_log :: "string \<Rightarrow> Service \<Rightarrow> Service" where
  "console_log msg s = s\<lparr>console := console s @ [msg]\<rparr>"

definition new_service :: Service where
  "new_service = \<lparr>client = None, history = [], stored = None, events = [], console = []\<rparr>"

subsection \<open>The history store\<close>

text \<open>The \<open>try\<close> block of \<open>loadHistory\<close>; \<open>Inl\<close> is a fault thrown inside it.\<close>

definition loadHistory_try :: "Runtime \<Rightarrow> Service \<Rightarrow> js_error + Service" where
  "loadHistory_try rt s =
     (case get_item_fault rt of
        Some e \<Rightarrow> Inl e
      | None \<Rightarrow>
          (case (case stored s of
                   None \<Rightarrow> Inr []
                 | Some storedHistory \<Rightarrow>
                     if storedHistory = [] then Inr [] else json_parse rt storedHistory) of
             Inl e \<Rightarrow> Inl e
           | Inr h \<Rightarrow> Inr (emit EvHistoryUpdated (s\<lparr>history := h\<rparr>))))"

text \<open>
  \<open>loadHistory\<close> with its \<open>catch\<close> clause. The result is a sum so that a fault leaving
  the function would be a value \<open>Inl\<close>.
\<close>

definition loadHistory :: "Runtime \<Rightarrow> Service \<Rightarrow> js_error + Service" where
  "loadHistory rt s =
     (case loadHistory_try rt s of
        Inr s' \<Rightarrow> Inr s'
      | Inl e \<Rightarrow>
          Inr ((console_log ''Failed to load or parse download history:'' s)\<lparr>history := []\<rparr>))"

definition saveHistory :: "Runtime \<Rightarrow> Service \<Rightarrow> Service" where
  "saveHistory rt s =
     (let payload = json_stringify rt (history s) in
      case set_item_fault rt payload of
        None \<Rightarrow> emit EvHistoryUpdated (s\<lparr>stored := Some payload\<rparr>)
      | Some e \<Rightarrow> console_log ''Failed to save download history:'' s)"

definition clearHistory :: "Runtime \<Rightarrow> Service \<Rightarrow> Service" where
  "clearHistory rt s = saveHistory rt (s\<lparr>history := []\<rparr>)"

definition removeFromHistory :: "Runtime \<Rightarrow> string \<Rightarrow> Service \<Rightarrow> Service" where
  "removeFromHistory rt h s =
     saveHistory rt (s\<lparr>history := filter (\<lambda>item. h_infoHash item \<noteq> h) (history s)\<rparr>)"

text \<open>\<open>Array.prototype.findIndex\<close>; \<open>None\<close> stands for the result \<open>-1\<close>.\<close>

fun findIndex :: "('a \<Rightarrow> bool) \<Rightarrow> 'a list \<Rightarrow> nat option" where
  "findIndex P [] = None"
| "findIndex P (x # xs) = (if P x then Some 0 else map_option Suc (findIndex P xs))"

text \<open>
  The constant \<open>newStatus\<close> of \<open>updateHistory\<close>:
  \<open>status || torrent.statusForHistory || 'active'\<close> (no status string is empty).
\<close>

definition newStatus :: "HistoryStatus option \<Rightarrow> Torrent \<Rightarrow> HistoryStatus" where
  "newStatus status torrent =
     (case status of
        Some st \<Rightarrow> st
      | None \<Rightarrow> (case statusForHistory torrent of Some st \<Rightarrow> st | None \<Rightarrow> HActive))"

text \<open>
  \<open>updateHistory(torrent, status?, lastError?)\<close>; \<open>now\<close> is the instant of
  \<open>new Date()\<close>, read in either branch.
\<close>

definition updateHistory ::
  "Runtime \<Rightarrow> int \<Rightarrow> Torrent \<Rightarrow> HistoryStatus option \<Rightarrow> string option \<Rightarrow> Service \<Rightarrow> Service" where
  "updateHistory rt now torrent status lastError s =
     (let existingIndex = findIndex (\<lambda>item. h_infoHash item = infoHash torrent) (history s);
          history' =
            (case existingIndex of
               Some i \<Rightarrow>
                 (history s)[i := (history s ! i)
                    \<lparr>h_status := newStatus status torrent,
                     h_completedDate :=
                       (if newStatus status torrent = HCompleted then Some now
                        else h_completedDate (history s ! i)),
                     h_lastError := str_or lastError (h_lastError (history s ! i)),
                     h_size := Some (length_t torrent)\<rparr>]
             | None \<Rightarrow>
                 \<lparr>h_infoHash = infoHash torrent,
                  h_magnetURI = magnetURI torrent,
                  h_name =
                    (case str_or (customName torrent) None of
                       Some n \<Rightarrow> n | None \<Rightarrow> name_t torrent),
                  h_itemId = itemId torrent,
                  h_addedDate = (case addedDate torrent of Some d \<Rightarrow> d | None \<Rightarrow> now),
                  h_completedDate = None,
                  h_status = newStatus status torrent,
                  h_size = Some (length_t torrent),
                  h_lastError = lastError\<rparr> # history s)
      in saveHistory rt (s\<lparr>history := history'\<rparr>))"

subsection \<open>The download manager\<close>

text \<open>
  \<open>getClient\<close> creates the engine client on first use (the interval that emits progress
  is started there).
\<close>

definition getClient :: "Service \<Rightarrow> Torrent list \<times> Service" where
  "getClient s =
     (case client s of
        Some ts \<Rightarrow> (ts, s)
      | None \<Rightarrow> ([], s\<lparr>client := Some []\<rparr>))"

text \<open>
  The engine's \<open>client.get(id)\<close>: the torrent whose info hash is the one the identifier
  resolves to, if any.
\<close>

definition client_get :: "Runtime \<Rightarrow> Torrent list \<Rightarrow> string \<Rightarrow> Torrent option" where
  "client_get rt ts ident =
     (case parse_id rt ident of
        None \<Rightarrow> None
      | Some h \<Rightarrow> find (\<lambda>t. infoHash t = h) ts)"

text \<open>
  The value of the promise \<open>addTorrent\<close> returns: \<open>null\<close> at once, rejected (the engine
  reports the identifier invalid; the early handler also removes the torrent again), or
  pending on the engine's callback for the torrent with the given hash.
\<close>

datatype AddResult = AddNull | AddRejected | AddPending string

definition addTorrent :: "Runtime \<Rightarrow> string \<Rightarrow> Service \<Rightarrow> AddResult \<times> Service" where
  "addTorrent rt uri s =
     (let (ts, s1) = getClient s in
      if client_get rt ts uri \<noteq> None then
        (AddNull, console_log (''Torrent already added: '' @ uri) s1)
      else
        (case parse_id rt uri of
           None \<Rightarrow> (AddRejected, s1)
         | Some h \<Rightarrow> (AddPending h, s1\<lparr>client := Some (ts @ [fresh_torrent h uri])\<rparr>)))"

text \<open>Assignment to the fields of the engine's torrent object with hash \<open>h\<close>.\<close>

definition update_torrent :: "string \<Rightarrow> (Torrent \<Rightarrow> Torrent) \<Rightarrow> Service \<Rightarrow> Service" where
  "update_torrent h f s =
     (case client s of
        None \<Rightarrow> s
      | Some ts \<Rightarrow>
          (case findIndex (\<lambda>t. infoHash t = h) ts of
             None \<Rightarrow> s
           | Some i \<Rightarrow> s\<lparr>client := Some (ts[i := f (ts ! i)])\<rparr>))"

text \<open>
  The callback \<open>addTorrent\<close> passes to \<open>client.add\<close>, run by the engine on the torrent
  instance \<open>t\<close> (hash \<open>infoHash t\<close>) once it is ready. \<open>now1\<close> and \<open>now2\<close> are the
  instants of \<open>new Date()\<close> and \<open>Date.now()\<close>, \<open>now3\<close> the one \<open>updateHistory\<close> reads.
  The promise resolves with the enhanced torrent.
\<close>

definition addTorrent_callback ::
  "Runtime \<Rightarrow> int \<Rightarrow> int \<Rightarrow> int \<Rightarrow> string option \<Rightarrow> ItemId option \<Rightarrow> Torrent \<Rightarrow> Service
     \<Rightarrow> Torrent \<times> Service" where
  "addTorrent_callback rt now1 now2 now3 itemName ident t s =
     (let enhancedTorrent =
            t\<lparr>customName := itemName, itemId := ident,
              addedDate := Some now1, lastProgressTime := Some now2\<rparr>;
          s1 = update_torrent (infoHash t) (\<lambda>_. enhancedTorrent) s;
          s2 = console_log (''Torrent added: '' @ infoHash enhancedTorrent) s1;
          s3 = updateHistory rt now3 enhancedTorrent (Some HActive) None s2;
          s4 = emit (EvAdded (infoHash enhancedTorrent)) s3
      in (enhancedTorrent, s4))"

text \<open>The handlers the callback registers for the torrent's \<open>done\<close> and \<open>error\<close> events.\<close>

definition on_done :: "Runtime \<Rightarrow> int \<Rightarrow> Torrent \<Rightarrow> Service \<Rightarrow> Service" where
  "on_done rt now t s =
     (let s1 = console_log (''Torrent done: '' @ infoHash t) s;
          t' = t\<lparr>statusForHistory := Some HCompleted\<rparr>;
          s2 = update_torrent (infoHash t) (\<lambda>_. t') s1;
          s3 = updateHistory rt now t' (Some HCompleted) None s2
      in emit (EvDone (infoHash t')) s3)"

text \<open>
  An \<open>error\<close> event of the torrent. Two handlers listen, in the order of their
  registration. The early one, attached by \<open>addTorrent\<close> with \<open>once\<close> right after
  \<open>client.add\<close>, is still attached at the torrent's first error (\<open>first\<close>); it
  rejects the promise, which has no effect once the promise is settled, and removes the
  torrent from the client. The one the ready callback registers runs after it on every
  error. \<open>errorMessage\<close> is \<open>err\<close> itself when it is a string and \<open>err.message\<close>
  otherwise, which may be undefined.
\<close>

definition on_error ::
  "Runtime \<Rightarrow> int \<Rightarrow> Torrent \<Rightarrow> string option \<Rightarrow> bool \<Rightarrow> Service \<Rightarrow> Service" where
  "on_error rt now t errorMessage first s =
     (let s0 =
            (if first then
               (case client s of
                  None \<Rightarrow> s
                | Some ts \<Rightarrow> s\<lparr>client := Some (filter (\<lambda>x. infoHash x \<noteq> infoHash t) ts)\<rparr>)
             else s);
          s1 = console_log (''Torrent error: '' @ infoHash t) s0;
          t' = t\<lparr>statusForHistory := Some HError\<rparr>;
          s2 = update_torrent (infoHash t) (\<lambda>_. t') s1;
          s3 = updateHistory rt now t' (Some HError) errorMessage s2
      in emit (EvError (infoHash t') errorMessage) s3)"

text \<open>
  \<open>removeTorrent\<close>; the engine's \<open>client.remove\<close> drops the torrent and calls back
  without an error.
\<close>

definition removeTorrent :: "Runtime \<Rightarrow> int \<Rightarrow> string \<Rightarrow> Service \<Rightarrow> Service" where
  "removeTorrent rt now ident s =
     (let (ts, s1) = getClient s in
      case client_get rt ts ident of
        None \<Rightarrow> s1
      | Some torrent \<Rightarrow>
          (let s2 = updateHistory rt now torrent (Some HRemoved) None s1;
               s3 = s2\<lparr>client := Some (filter (\<lambda>t. infoHash t \<noteq> infoHash torrent) ts)\<rparr>
           in emit (EvRemoved (infoHash torrent)) s3))"

definition getTorrent :: "Runtime \<Rightarrow> Service \<Rightarrow> string \<Rightarrow> Torrent option" where
  "getTorrent rt s ident =
     (case client s of None \<Rightarrow> None | Some ts \<Rightarrow> client_get rt ts ident)"

definition pauseTorrent :: "Runtime \<Rightarrow> int \<Rightarrow> string \<Rightarrow> Service \<Rightarrow> Service" where
  "pauseTorrent rt now ident s =
     (case getTorrent rt s ident of
        None \<Rightarrow> s
      | Some torrent \<Rightarrow>
          if paused torrent then s
          else
            (let t' = torrent\<lparr>paused := True, statusForHistory := Some HPaused\<rparr>
             in updateHistory rt now t' None None (update_torrent (infoHash torrent) (\<lambda>_. t') s)))"

definition resumeTorrent :: "Runtime \<Rightarrow> int \<Rightarrow> string \<Rightarrow> Service \<Rightarrow> Service" where
  "resumeTorrent rt now ident s =
     (case getTorrent rt s ident of
        None \<Rightarrow> s
      | Some torrent \<Rightarrow>
          if paused torrent then
            (let t' = torrent\<lparr>paused := False, statusForHistory := Some HActive\<rparr>
             in updateHistory rt now t' None None (update_torrent (infoHash torrent) (\<lambda>_. t') s))
          else s)"

subsection \<open>Streaming the largest file\<close>

text \<open>
  \<open>Array.prototype.reduce\<close> without an initial value: a \<open>TypeError\<close> on the empty
  array, otherwise a left fold that starts from the first element.
\<close>

definition reduce1 :: "('a \<Rightarrow> 'a \<Rightarrow> 'a) \<Rightarrow> 'a list \<Rightarrow> js_error + 'a" where
  "reduce1 f xs = (case xs of [] \<Rightarrow> Inl TypeError | x # rest \<Rightarrow> Inr (foldl f x rest))"

definition larger :: "TorrentFile \<Rightarrow> TorrentFile \<Rightarrow> TorrentFile" where
  "larger a b = (if file_length a > file_length b then a else b)"

text \<open>Decimal rendering of a number inside a template literal.\<close>

definition digit :: "nat \<Rightarrow> char" where
  "digit d = ''0123456789'' ! d"

fun show_nat :: "nat \<Rightarrow> string" where
  "show_nat n = (if n < 10 then [digit n] else show_nat (n div 10) @ [digit (n mod 10)])"

declare show_nat.simps [simp del]

text \<open>
  \<open>(file as any).createServer()\<close>. The engine's file object has no method
  \<open>createServer\<close>, which is why the source reaches it through a cast to \<open>any\<close>:
  the call is a call of \<open>undefined\<close> and throws a \<open>TypeError\<close>. Were there a server,
  the result would be the port it listens on.
\<close>

definition file_createServer :: "TorrentFile \<Rightarrow> js_error + nat" where
  "file_createServer file = Inl TypeError"

text \<open>
  \<open>getLargestFileForStreaming\<close>. \<open>Inr None\<close> is the result \<open>null\<close>, \<open>Inl\<close> a fault
  thrown by the function or inside the executor of the promise it returns (a rejected
  promise). The test \<open>!file\<close> after the reduction never holds, a file being an object.
\<close>

definition getLargestFileForStreaming ::
  "Runtime \<Rightarrow> string \<Rightarrow> Service \<Rightarrow> js_error + (TorrentFile \<times> string) option" where
  "getLargestFileForStreaming rt ident s =
     (case getTorrent rt s ident of
        None \<Rightarrow> Inr None
      | Some torrent \<Rightarrow>
          if \<not> ready torrent then Inr None
          else
            (case reduce1 larger (files torrent) of
               Inl e \<Rightarrow> Inl e
             | Inr file \<Rightarrow>
                 (case file_createServer file of
                    Inl e \<Rightarrow> Inl e
                  | Inr port \<Rightarrow>
                      Inr (Some (file, ''http://localhost:'' @ show_nat port @ ''/0'')))))"

text \<open>
  The selection as the specification words it: the first file, in list order, whose
  length no other file exceeds.
\<close>

definition largest_first :: "TorrentFile list \<Rightarrow> TorrentFile option" where
  "largest_first fs = find (\<lambda>f. list_all (\<lambda>g. file_length g \<le> file_length f) fs) fs"

subsection \<open>Auxiliary notions for the statements\<close>

text \<open>
  An upsert supplies no error message when its \<open>lastError\<close> argument is falsy:
  \<open>undefined\<close> or the empty string.
\<close>

definition no_message :: "string option \<Rightarrow> bool" where
  "no_message e = (e = None \<or> e = Some [])"

text \<open>The history records stored under an id, and the record a lookup by id finds.\<close>

definition records_of :: "string \<Rightarrow> HistoryItem list \<Rightarrow> HistoryItem list" where
  "records_of h hs = filter (\<lambda>item. h_infoHash item = h) hs"

definition record_of :: "string \<Rightarrow> HistoryItem list \<Rightarrow> HistoryItem option" where
  "record_of h hs = find (\<lambda>item. h_infoHash item = h) hs"

text \<open>
  A concrete environment for the instances below: an identifier is a magnet link with
  the prefix \<open>magnet:?xt=urn:btih:\<close>, resolved to the text after the prefix, or else
  invalid; \<open>JSON.parse\<close> accepts the empty array only; storage never faults.
\<close>

definition test_runtime :: Runtime where
  "test_runtime =
     \<lparr>json_parse = (\<lambda>str. if str = ''[]'' then Inr [] else Inl SyntaxError),
      json_stringify = (\<lambda>hs. if hs = [] then ''[]'' else ''[...]''),
      get_item_fault = None,
      set_item_fault = (\<lambda>payload. None),
      parse_id =
        (\<lambda>ident. if take 20 ident = ''magnet:?xt=urn:btih:'' \<and> drop 20 ident \<noteq> []
                  then Some (drop 20 ident) else None)\<rparr>"

definition test_uri :: string where
  "test_uri = ''magnet:?xt=urn:btih:abcd''"

definition test_torrent :: Torrent where
  "test_torrent = fresh_torrent ''abcd'' test_uri"

definition test_files :: "TorrentFile list" where
  "test_files =
     [\<lparr>file_name = ''a.mkv'', file_length = 10\<rparr>,
      \<lparr>file_name = ''b.mkv'', file_length = 10\<rparr>,
      \<lparr>file_name = ''c.txt'', file_length = 1\<rparr>]"

definition test_service :: Service where
  "test_service =
     new_service\<lparr>client := Some [test_torrent\<lparr>ready := True, files := test_files\<rparr>]\<rparr>"

definition test_record :: HistoryItem where
  "test_record =
     \<lparr>h_infoHash = ''abcd'', h_magnetURI = test_uri, h_name = ''Movie X'', h_itemId = None,
      h_addedDate = 1700000000000, h_completedDate = Some 1700000050000,
      h_status = HCompleted, h_size = Some 1000, h_lastError = Some ''disk full''\<rparr>"

section \<open>Properties of the status classifier\<close>

lemma parse_test_uri: "parse_id test_runtime test_uri = Some ''abcd''"
  by (simp add: test_runtime_def test_uri_def)

text \<open>
  The first classification followed by the no-peers override, for a torrent that is not
  ready and for a paused one.
\<close>

lemma status_not_ready:
  "\<not> ready t \<Longrightarrow>
     p_status (fst (getTorrentProgress now1 now2 t)) =
       (if numPeers t = 0 \<and> now2 - num_or (addedDate t) 0 > NO_PEERS_TIMEOUT
        then No_peers else Metadata)"
  by (simp add: getTorrentProgress_def)


lemma num_or_Some_0 [simp]: "num_or (Some a) 0 = a"
  by (simp add: num_or_def)

text \<open>
  C2: a snapshot with \<open>ready = false\<close> is classified \<open>metadata\<close> whatever the other
  fields are. The code breaks this on the torrents it holds before their metadata
  arrives. \<open>addedDate\<close> is assigned in the ready callback only, so a torrent that is not
  ready has none, and \<open>torrent.addedDate?.getTime() || 0\<close> measures the time since the
  epoch: with no peer connected the no-peers test holds at once. The torrent
  \<open>addTorrent\<close> has just put into the client is classified \<open>no_peers\<close>, with the
  reason "No peers found after 60 seconds.", on the very first tick.
\<close>

theorem C2_not_ready_no_peers_at_once:
  "snd (addTorrent test_runtime test_uri new_service)
     = new_service\<lparr>client := Some [test_torrent]\<rparr> \<and>
   \<not> ready test_torrent \<and> addedDate test_torrent = None \<and>
   p_status (fst (getTorrentProgress 1700000000000 1700000000000 test_torrent)) = No_peers \<and>
   p_status (fst (getTorrentProgress 1700000000000 1700000000000 test_torrent)) \<noteq> Metadata \<and>
   p_noPeersReason (fst (getTorrentProgress 1700000000000 1700000000000 test_torrent))
     = Some ''No peers found after 60 seconds.''"
  by (simp add: addTorrent_def getClient_def client_get_def parse_test_uri new_service_def
      getTorrentProgress_def NO_PEERS_TIMEOUT_def test_torrent_def fresh_torrent_def num_or_def)




text \<open>
  C4: for a snapshot with \<open>ready = true\<close>, \<open>done = false\<close>, \<open>paused = false\<close>,
  three peers and download rate 0, whose \<open>lastProgressTime\<close> is a set instant \<open>lp\<close>
  (a reading of \<open>Date.now()\<close>, hence not 0): 31 seconds after \<open>lp\<close> the status is
  \<open>stalled\<close>, 29 seconds after \<open>lp\<close> it is \<open>downloading\<close>, and the threshold of
  30 seconds has to be exceeded strictly.
\<close>

theorem C4_stall_detection:
  "ready t \<Longrightarrow> \<not> done_t t \<Longrightarrow> \<not> paused t \<Longrightarrow> numPeers t = 3 \<Longrightarrow> downloadSpeed t = 0 \<Longrightarrow>
   lastProgressTime t = Some lp \<Longrightarrow> lp \<noteq> 0 \<Longrightarrow>
     (now1 - lp = 31000 \<longrightarrow> p_status (fst (getTorrentProgress now1 now2 t)) = Stalled) \<and>
     (now1 - lp = 29000 \<longrightarrow> p_status (fst (getTorrentProgress now1 now2 t)) = Downloading) \<and>
     p_status (fst (getTorrentProgress now1 now2 t)) =
       (if now1 - lp > STALL_TIMEOUT then Stalled else Downloading) \<and>
     STALL_TIMEOUT = 30000"
  by (simp add: getTorrentProgress_def NO_PEERS_TIMEOUT_def STALL_TIMEOUT_def num_or_def)

theorem C4_stall_detection_witness:
  "p_status (fst (getTorrentProgress 1700000031000 1700000031000
       (test_torrent\<lparr>ready := True, numPeers := 3, lastProgressTime := Some 1700000000000\<rparr>)))
     = Stalled \<and>
   p_status (fst (getTorrentProgress 1700000029000 1700000029000
       (test_torrent\<lparr>ready := True, numPeers := 3, lastProgressTime := Some 1700000000000\<rparr>)))
     = Downloading \<and>
   p_status (fst (getTorrentProgress 1700000030000 1700000030000
       (test_torrent\<lparr>ready := True, numPeers := 3, lastProgressTime := Some 1700000000000\<rparr>)))
     = Downloading"
  using
    C4_stall_detection [of
      "test_torrent\<lparr>ready := True, numPeers := 3, lastProgressTime := Some 1700000000000\<rparr>"
      1700000000000 1700000031000 1700000031000]
    C4_stall_detection [of
      "test_torrent\<lparr>ready := True, numPeers := 3, lastProgressTime := Some 1700000000000\<rparr>"
      1700000000000 1700000029000 1700000029000]
    C4_stall_detection [of
      "test_torrent\<lparr>ready := True, numPeers := 3, lastProgressTime := Some 1700000000000\<rparr>"
      1700000000000 1700000030000 1700000030000]
  by (simp add: test_torrent_def fresh_torrent_def)

text \<open>
  C5: for an actively downloading snapshot (ready, not done, not paused) with no peers:
  61 seconds after \<open>addedDate\<close> the status is \<open>no_peers\<close> and the reason, in the
  progress record and on the torrent, is the non-empty text
  "No peers found after 60 seconds."; 59 seconds after \<open>addedDate\<close>, all else equal, the
  status is not \<open>no_peers\<close> (it is \<open>downloading\<close>).
\<close>

theorem C5_no_peers_detection:
  "ready t \<Longrightarrow> \<not> done_t t \<Longrightarrow> \<not> paused t \<Longrightarrow> numPeers t = 0 \<Longrightarrow> addedDate t = Some a \<Longrightarrow>
     (now2 - a = 61000 \<longrightarrow>
        p_status (fst (getTorrentProgress now1 now2 t)) = No_peers \<and>
        p_noPeersReason (fst (getTorrentProgress now1 now2 t))
          = Some ''No peers found after 60 seconds.'' \<and>
        p_noPeersReason (fst (getTorrentProgress now1 now2 t)) \<noteq> Some [] \<and>
        noPeersReason (snd (getTorrentProgress now1 now2 t))
          = Some ''No peers found after 60 seconds.'') \<and>
     (now2 - a = 59000 \<longrightarrow>
        p_status (fst (getTorrentProgress now1 now2 t)) \<noteq> No_peers \<and>
        p_status (fst (getTorrentProgress now1 now2 t)) = Downloading)"
  by (auto simp add: getTorrentProgress_def NO_PEERS_TIMEOUT_def STALL_TIMEOUT_def num_or_def)

theorem C5_no_peers_detection_witness:
  "p_status (fst (getTorrentProgress 1700000061000 1700000061000
       (test_torrent\<lparr>ready := True, addedDate := Some 1700000000000\<rparr>))) = No_peers \<and>
   p_noPeersReason (fst (getTorrentProgress 1700000061000 1700000061000
       (test_torrent\<lparr>ready := True, addedDate := Some 1700000000000\<rparr>)))
     = Some ''No peers found after 60 seconds.'' \<and>
   p_status (fst (getTorrentProgress 1700000059000 1700000059000
       (test_torrent\<lparr>ready := True, addedDate := Some 1700000000000\<rparr>))) = Downloading"
  using
    C5_no_peers_detection [of "test_torrent\<lparr>ready := True, addedDate := Some 1700000000000\<rparr>"
      1700000000000 1700000061000 1700000061000]
    C5_no_peers_detection [of "test_torrent\<lparr>ready := True, addedDate := Some 1700000000000\<rparr>"
      1700000000000 1700000059000 1700000059000]
  by (simp add: test_torrent_def fresh_torrent_def)

text \<open>
  C6, as stated: on a tick with download rate 0, \<open>lastProgressTime\<close> is left unchanged.
  This fails when the rate is 0 and no peer is connected: the refresh is the \<open>else\<close>
  branch of the stall test, which needs a peer.
\<close>

theorem C6_refresh_counterexample:
  "downloadSpeed (test_torrent\<lparr>ready := True, lastProgressTime := Some 1700000000000\<rparr>) = 0 \<and>
   lastProgressTime (test_torrent\<lparr>ready := True, lastProgressTime := Some 1700000000000\<rparr>)
     = Some 1700000000000 \<and>
   lastProgressTime (snd (getTorrentProgress 1700000005000 1700000005000
       (test_torrent\<lparr>ready := True, lastProgressTime := Some 1700000000000\<rparr>)))
     = Some 1700000005000"
  by (simp add: getTorrentProgress_def NO_PEERS_TIMEOUT_def test_torrent_def fresh_torrent_def
      num_or_def)

text \<open>
  C6, amended: a tick sets \<open>lastProgressTime\<close> to the clock reading exactly when the
  torrent is ready, not done and not paused and it is not the case that the download
  rate is 0 with a peer connected (so: the rate is nonzero, or there is no peer); on every
  other tick, in particular whenever the rate is 0 and a peer is connected, it is left
  unchanged.
\<close>

theorem C6_refresh:
  "lastProgressTime (snd (getTorrentProgress now1 now2 t)) =
     (if ready t \<and> \<not> done_t t \<and> \<not> paused t \<and> \<not> (downloadSpeed t = 0 \<and> numPeers t > 0)
      then Some now1 else lastProgressTime t) \<and>
   (downloadSpeed t = 0 \<and> numPeers t > 0 \<longrightarrow>
      lastProgressTime (snd (getTorrentProgress now1 now2 t)) = lastProgressTime t)"
  by (simp add: getTorrentProgress_def)

theorem C6_refresh_witness:
  "lastProgressTime (snd (getTorrentProgress 1700000005000 1700000005000
       (test_torrent\<lparr>ready := True, numPeers := 2, lastProgressTime := Some 1700000000000\<rparr>)))
     = Some 1700000000000 \<and>
   lastProgressTime (snd (getTorrentProgress 1700000005000 1700000005000
       (test_torrent\<lparr>ready := True, numPeers := 2, downloadSpeed := 1024,
          lastProgressTime := Some 1700000000000\<rparr>)))
     = Some 1700000005000"
  using
    C6_refresh [of 1700000005000 1700000005000
      "test_torrent\<lparr>ready := True, numPeers := 2, lastProgressTime := Some 1700000000000\<rparr>"]
    C6_refresh [of 1700000005000 1700000005000
      "test_torrent\<lparr>ready := True, numPeers := 2, downloadSpeed := 1024,
          lastProgressTime := Some 1700000000000\<rparr>"]
  by (simp add: test_torrent_def fresh_torrent_def)

section \<open>Properties of the history store\<close>

subsection \<open>Lists: \<open>findIndex\<close>, \<open>find\<close> and assignment at an index\<close>

lemma findIndex_None_iff: "findIndex P xs = None \<longleftrightarrow> (\<forall>x \<in> set xs. \<not> P x)"
  by (induction xs) auto

lemma findIndex_Some_D:
  "findIndex P xs = Some i \<Longrightarrow> i < length xs \<and> P (xs ! i) \<and> find P xs = Some (xs ! i)"
  by (induction xs arbitrary: i) (auto split: if_splits)

lemma find_Some_holds: "find P xs = Some x \<Longrightarrow> P x \<and> x \<in> set xs"
  by (induction xs) (auto split: if_splits)

lemma find_update_hit:
  "findIndex P xs = Some i \<Longrightarrow> P y \<Longrightarrow> find P (xs[i := y]) = Some y"
  by (induction xs arbitrary: i) (auto split: if_splits)

lemma find_update_miss:
  "i < length xs \<Longrightarrow> \<not> Q (xs ! i) \<Longrightarrow> \<not> Q y \<Longrightarrow> find Q (xs[i := y]) = find Q xs"
proof (induction xs arbitrary: i)
  case Nil
  then show ?case by simp
next
  case (Cons a xs)
  then show ?case by (cases i) auto
qed

lemma find_append_hit: "P y \<Longrightarrow> \<exists>z. find P (xs @ [y]) = Some z"
  by (induction xs) auto

lemma records_of_update:
  "i < length xs \<Longrightarrow> h_infoHash y = h_infoHash (xs ! i) \<Longrightarrow>
     length (records_of h (xs[i := y])) = length (records_of h xs)"
proof (induction xs arbitrary: i)
  case Nil
  then show ?case by simp
next
  case (Cons a xs)
  then show ?case by (cases i) (auto simp: records_of_def)
qed

subsection \<open>What \<open>saveHistory\<close> and \<open>updateHistory\<close> leave alone\<close>

lemma history_saveHistory [simp]: "history (saveHistory rt s) = history s"
  by (simp add: saveHistory_def emit_def console_log_def Let_def split: option.splits)

lemma client_saveHistory [simp]: "client (saveHistory rt s) = client s"
  by (simp add: saveHistory_def emit_def console_log_def Let_def split: option.splits)

lemma client_updateHistory [simp]: "client (updateHistory rt now t st le s) = client s"
  by (simp add: updateHistory_def Let_def)

subsection \<open>The record found under an id after an upsert\<close>

lemma record_of_updateHistory:
  assumes "record_of h (history s) = Some r"
  shows "record_of h (history (updateHistory rt now t st le s)) =
           Some (if h = infoHash t then
                   r\<lparr>h_status := newStatus st t,
                     h_completedDate :=
                       (if newStatus st t = HCompleted then Some now else h_completedDate r),
                     h_lastError := str_or le (h_lastError r),
                     h_size := Some (length_t t)\<rparr>
                 else r)"
proof (cases "findIndex (\<lambda>item. h_infoHash item = infoHash t) (history s)")
  case None
  from assms have "h_infoHash r = h" and "r \<in> set (history s)"
    using find_Some_holds [of "\<lambda>item. h_infoHash item = h" "history s" r]
    by (simp_all add: record_of_def)
  with None have "h \<noteq> infoHash t"
    by (auto simp: findIndex_None_iff)
  with None assms show ?thesis
    by (simp add: updateHistory_def record_of_def)
next
  case (Some i)
  then have i: "i < length (history s)" "h_infoHash (history s ! i) = infoHash t"
    and f: "find (\<lambda>item. h_infoHash item = infoHash t) (history s) = Some (history s ! i)"
    using findIndex_Some_D [of "\<lambda>item. h_infoHash item = infoHash t" "history s" i] by simp_all
  show ?thesis
  proof (cases "h = infoHash t")
    case True
    with f assms have r: "history s ! i = r" by (simp add: record_of_def)
    with i have k: "h_infoHash r = infoHash t" by simp
    from Some True r k show ?thesis
      by (simp add: updateHistory_def record_of_def find_update_hit)
  next
    case False
    with Some i assms show ?thesis
      by (simp add: updateHistory_def record_of_def find_update_miss)
  qed
qed

lemma updateHistory_keeps_lastError:
  "record_of h (history s) = Some r \<Longrightarrow> (infoHash t = h \<longrightarrow> no_message le) \<Longrightarrow>
     \<exists>r'. record_of h (history (updateHistory rt now t st le s)) = Some r' \<and>
       h_lastError r' = h_lastError r"
  by (auto simp add: record_of_updateHistory no_message_def str_or_def)

lemma records_of_updateHistory:
  "length (records_of h (history (updateHistory rt now t st le s))) =
     (if infoHash t = h then max 1 (length (records_of h (history s)))
      else length (records_of h (history s)))"
proof (cases "findIndex (\<lambda>item. h_infoHash item = infoHash t) (history s)")
  case None
  then have "records_of (infoHash t) (history s) = []"
    by (auto simp: findIndex_None_iff records_of_def filter_empty_conv)
  with None show ?thesis
    by (auto simp: updateHistory_def records_of_def)
next
  case (Some i)
  then have i: "i < length (history s)" "h_infoHash (history s ! i) = infoHash t"
    using findIndex_Some_D [of "\<lambda>item. h_infoHash item = infoHash t" "history s" i] by simp_all
  then have "history s ! i \<in> set (records_of (infoHash t) (history s))"
    by (simp add: records_of_def)
  then have "1 \<le> length (records_of (infoHash t) (history s))"
    by (cases "records_of (infoHash t) (history s)") auto
  with Some i show ?thesis
    by (auto simp: updateHistory_def records_of_update)
qed

subsection \<open>Upserts onto an existing record\<close>

text \<open>
  C7: an upsert leaves a record stored under the id \<open>h\<close> in place, and the record's
  \<open>completedDate\<close> afterwards is the current instant exactly when the upsert is for
  that id and its new status is \<open>completed\<close>; in every other case it is the value
  stored before (so an upsert with a status other than \<open>completed\<close>, such as \<open>active\<close>
  over a \<open>completed\<close> record, neither clears nor changes it). The status of the record
  of the upserted id becomes the new status.
\<close>

theorem C7_completedDate_upsert:
  "record_of h (history s) = Some r \<Longrightarrow>
     map_option h_completedDate (record_of h (history (updateHistory rt now t st le s))) =
       Some (if h = infoHash t \<and> newStatus st t = HCompleted then Some now
             else h_completedDate r) \<and>
     map_option h_status (record_of h (history (updateHistory rt now t st le s))) =
       Some (if h = infoHash t then newStatus st t else h_status r)"
  by (simp add: record_of_updateHistory)

theorem C7_completedDate_upsert_witness:
  "map_option h_completedDate (record_of ''abcd''
       (history (updateHistory test_runtime 1700000090000 test_torrent (Some HActive) None
          (new_service\<lparr>history := [test_record]\<rparr>)))) = Some (Some 1700000050000) \<and>
   map_option h_status (record_of ''abcd''
       (history (updateHistory test_runtime 1700000090000 test_torrent (Some HActive) None
          (new_service\<lparr>history := [test_record]\<rparr>)))) = Some HActive \<and>
   map_option h_completedDate (record_of ''abcd''
       (history (updateHistory test_runtime 1700000090000 test_torrent (Some HCompleted) None
          (new_service\<lparr>history := [test_record]\<rparr>)))) = Some (Some 1700000090000)"
  using
    C7_completedDate_upsert [of "''abcd''" "new_service\<lparr>history := [test_record]\<rparr>" test_record
      test_runtime 1700000090000 test_torrent "Some HActive" None]
    C7_completedDate_upsert [of "''abcd''" "new_service\<lparr>history := [test_record]\<rparr>" test_record
      test_runtime 1700000090000 test_torrent "Some HCompleted" None]
  by (simp add: record_of_def new_service_def test_record_def test_torrent_def fresh_torrent_def
      newStatus_def)

text \<open>
  C10: once a record is stored under the id \<open>h\<close>, its \<open>lastError\<close> is the same after
  any sequence of upserts in which every upsert for \<open>h\<close> supplies no error message
  (\<open>undefined\<close> or the empty string), whatever the statuses are; a single upsert is the
  sequence of length one.
\<close>

theorem C10_lastError_kept:
  "record_of h (history s) = Some r \<Longrightarrow>
   \<forall>c \<in> set calls. infoHash (fst (snd c)) = h \<longrightarrow> no_message (snd (snd (snd c))) \<Longrightarrow>
     map_option h_lastError
       (record_of h (history (fold (\<lambda>(now, t, st, le). updateHistory rt now t st le) calls s)))
       = Some (h_lastError r)"
proof (induction calls arbitrary: s r)
  case Nil
  then show ?case by simp
next
  case (Cons c calls)
  obtain now t st le where c: "c = (now, t, st, le)" by (cases c) auto
  with Cons.prems have "infoHash t = h \<longrightarrow> no_message le" by simp
  with Cons.prems(1) obtain r1 where
    r1: "record_of h (history (updateHistory rt now t st le s)) = Some r1"
      "h_lastError r1 = h_lastError r"
    using updateHistory_keeps_lastError by blast
  from Cons.prems(2)
  have "\<forall>c \<in> set calls. infoHash (fst (snd c)) = h \<longrightarrow> no_message (snd (snd (snd c)))"
    by simp
  from Cons.IH [OF r1(1) this] r1(2) c show ?case by simp
qed

theorem C10_lastError_kept_witness:
  "map_option h_lastError
     (record_of ''abcd'' (history (fold (\<lambda>(now, t, st, le). updateHistory test_runtime now t st le)
        [(1700000090000, test_torrent, Some HCompleted, None),
         (1700000095000, test_torrent, Some HActive, Some [])]
        (new_service\<lparr>history := [test_record]\<rparr>))))
     = Some (Some ''disk full'')"
  using C10_lastError_kept [of "''abcd''" "new_service\<lparr>history := [test_record]\<rparr>" test_record
      "[(1700000090000, test_torrent, Some HCompleted, None),
        (1700000095000, test_torrent, Some HActive, Some [])]" test_runtime]
  by (simp add: record_of_def new_service_def test_record_def no_message_def)

subsection \<open>Loading the history\<close>

text \<open>
  C9: when the stored payload is absent, or is a text that \<open>JSON.parse\<close> rejects,
  \<open>loadHistory\<close> returns normally and leaves the in-memory history empty. When there is
  a non-empty payload and reading it did not fault, the outcome is exactly the state with
  the failure logged on the console and the history empty.
\<close>

theorem C9_corrupt_load:
  "stored s = None \<or> (\<exists>str e. stored s = Some str \<and> json_parse rt str = Inl e) \<Longrightarrow>
     (case loadHistory rt s of Inl e \<Rightarrow> False | Inr s' \<Rightarrow> history s' = []) \<and>
     (get_item_fault rt = None \<and> stored s \<noteq> None \<and> stored s \<noteq> Some [] \<longrightarrow>
        loadHistory rt s =
          Inr ((console_log ''Failed to load or parse download history:'' s)\<lparr>history := []\<rparr>))"
  by (auto simp: loadHistory_def loadHistory_try_def emit_def console_log_def
      split: option.splits sum.splits)

theorem C9_corrupt_load_witness:
  "(case loadHistory test_runtime new_service of Inl e \<Rightarrow> False | Inr s' \<Rightarrow> history s' = []) \<and>
   loadHistory test_runtime (new_service\<lparr>stored := Some ''{not json''\<rparr>) =
     Inr ((console_log ''Failed to load or parse download history:''
            (new_service\<lparr>stored := Some ''{not json''\<rparr>))\<lparr>history := []\<rparr>)"
  using C9_corrupt_load [of "new_service\<lparr>stored := Some ''{not json''\<rparr>" test_runtime]
    C9_corrupt_load [of new_service test_runtime]
  by (simp add: test_runtime_def new_service_def)

section \<open>Properties of the download manager\<close>

subsection \<open>Presence of a torrent in the client\<close>

lemma infoHash_fresh_torrent [simp]: "infoHash (fresh_torrent h uri) = h"
  by (simp add: fresh_torrent_def)

lemma addTorrent_present:
  "getTorrent rt s uri \<noteq> None \<Longrightarrow>
     addTorrent rt uri s = (AddNull, console_log (''Torrent already added: '' @ uri) s)"
  by (auto simp: addTorrent_def getTorrent_def getClient_def split: option.splits)

lemma addTorrent_absent_eq:
  "getTorrent rt s uri = None \<Longrightarrow> parse_id rt uri = Some h \<Longrightarrow>
     addTorrent rt uri s =
       (AddPending h, s\<lparr>client := Some (fst (getClient s) @ [fresh_torrent h uri])\<rparr>)"
  by (cases "client s") (simp_all add: addTorrent_def getTorrent_def getClient_def client_get_def)

lemma addTorrent_absent:
  assumes "getTorrent rt s uri = None" and "parse_id rt uri = Some h"
  shows "fst (addTorrent rt uri s) = AddPending h"
    and "getTorrent rt (snd (addTorrent rt uri s)) uri \<noteq> None"
    and "history (snd (addTorrent rt uri s)) = history s"
    and "events (snd (addTorrent rt uri s)) = events s"
proof -
  note eq = addTorrent_absent_eq [OF assms]
  show "fst (addTorrent rt uri s) = AddPending h" by (simp add: eq)
  show "history (snd (addTorrent rt uri s)) = history s" by (simp add: eq)
  show "events (snd (addTorrent rt uri s)) = events s" by (simp add: eq)
  obtain z where "find (\<lambda>t. infoHash t = h) (fst (getClient s) @ [fresh_torrent h uri]) = Some z"
    using find_append_hit [of "\<lambda>t. infoHash t = h" "fresh_torrent h uri" "fst (getClient s)"]
    by auto
  then show "getTorrent rt (snd (addTorrent rt uri s)) uri \<noteq> None"
    using assms(2) by (simp add: eq getTorrent_def client_get_def)
qed

lemma client_get_update:
  assumes "parse_id rt uri = Some h" and "infoHash t' = h"
    and "findIndex (\<lambda>t. infoHash t = h) ts = Some i"
  shows "client_get rt (ts[i := t']) uri \<noteq> None"
proof -
  have "find (\<lambda>t. infoHash t = h) (ts[i := t']) = Some t'"
    using assms(3) assms(2) by (rule find_update_hit)
  with assms(1) show ?thesis by (simp add: client_get_def)
qed

lemma getTorrent_update_torrent:
  assumes "parse_id rt uri = Some h" and "infoHash t' = h" and "getTorrent rt s uri \<noteq> None"
  shows "getTorrent rt (update_torrent h (\<lambda>_. t') s) uri \<noteq> None"
proof (cases "client s")
  case None
  with assms(3) show ?thesis by (simp add: getTorrent_def)
next
  case (Some ts)
  show ?thesis
  proof (cases "findIndex (\<lambda>t. infoHash t = h) ts")
    case None
    with Some assms(3) show ?thesis by (simp add: update_torrent_def)
  next
    case (Some i)
    with \<open>client s = Some ts\<close> assms show ?thesis
      using client_get_update [of rt uri h t' ts i]
      by (simp add: update_torrent_def getTorrent_def)
  qed
qed

lemma getTorrent_client_eq:
  "client s' = client s \<Longrightarrow> getTorrent rt s' uri = getTorrent rt s uri"
  by (simp add: getTorrent_def)

lemma history_update_torrent [simp]: "history (update_torrent h f s) = history s"
  by (simp add: update_torrent_def split: option.splits)

subsection \<open>The ready callback\<close>

lemma client_addTorrent_callback:
  "client (snd (addTorrent_callback rt now1 now2 now3 nm iid t s)) =
     client (update_torrent (infoHash t)
       (\<lambda>_. t\<lparr>customName := nm, itemId := iid, addedDate := Some now1,
                lastProgressTime := Some now2\<rparr>) s)"
  by (simp add: addTorrent_callback_def Let_def emit_def console_log_def)

lemma history_addTorrent_callback:
  "history (snd (addTorrent_callback rt now1 now2 now3 nm iid t s)) =
     history (updateHistory rt now3
       (t\<lparr>customName := nm, itemId := iid, addedDate := Some now1,
          lastProgressTime := Some now2\<rparr>) (Some HActive) None s)"
  by (simp add: addTorrent_callback_def Let_def emit_def console_log_def updateHistory_def
      saveHistory_def split: option.splits)

lemma addTorrent_callback_present:
  assumes "parse_id rt uri = Some (infoHash t)" and "getTorrent rt s uri \<noteq> None"
  shows "getTorrent rt (snd (addTorrent_callback rt now1 now2 now3 nm iid t s)) uri \<noteq> None"
proof -
  let ?e = "t\<lparr>customName := nm, itemId := iid, addedDate := Some now1,
    lastProgressTime := Some now2\<rparr>"
  have "infoHash ?e = infoHash t" by simp
  then have "getTorrent rt (update_torrent (infoHash t) (\<lambda>_. ?e) s) uri \<noteq> None"
    by (rule getTorrent_update_torrent [OF assms(1) _ assms(2)])
  moreover have "getTorrent rt (snd (addTorrent_callback rt now1 now2 now3 nm iid t s)) uri
      = getTorrent rt (update_torrent (infoHash t) (\<lambda>_. ?e) s) uri"
    by (rule getTorrent_client_eq) (rule client_addTorrent_callback)
  ultimately show ?thesis by simp
qed

lemma addTorrent_callback_records:
  "length (records_of (infoHash t)
       (history (snd (addTorrent_callback rt now1 now2 now3 nm iid t s))))
     = max 1 (length (records_of (infoHash t) (history s)))"
  by (simp only: history_addTorrent_callback) (simp add: records_of_updateHistory)

subsection \<open>Adding a locator twice\<close>

text \<open>
  C1, as stated: adding a locator that is already in the active set returns the existing
  transfer. This fails: the guard at the head of \<open>addTorrent\<close> warns and returns
  \<open>null\<close>.
\<close>

theorem C1_add_present_counterexample:
  "getTorrent test_runtime test_service test_uri
     = Some (test_torrent\<lparr>ready := True, files := test_files\<rparr>) \<and>
   fst (addTorrent test_runtime test_uri test_service) = AddNull \<and>
   fst (addTorrent test_runtime test_uri test_service) \<noteq> AddPending ''abcd''"
  by (simp add: addTorrent_def getTorrent_def getClient_def client_get_def parse_test_uri
      test_service_def new_service_def test_torrent_def fresh_torrent_def)

text \<open>
  C1, amended. Adding a locator whose torrent is already in the client returns \<open>null\<close>
  and changes nothing but the console (one warning): the client's torrents, the history,
  the stored payload and the emitted events are as before. And when a locator that is not
  in the client and resolves to the hash of \<open>t\<close> is added twice, the first call starts
  the torrent and creates no history record, a second call made before the ready callback
  returns \<open>null\<close>; after the ready callback has run on \<open>t\<close>, the history holds
  exactly one record of that hash (given it held at most one before) and a second call
  again returns \<open>null\<close> with no effect but the warning.
\<close>

theorem C1_add_present:
  "(getTorrent rt s uri \<noteq> None \<longrightarrow>
      addTorrent rt uri s = (AddNull, console_log (''Torrent already added: '' @ uri) s)) \<and>
   (getTorrent rt s uri = None \<and> parse_id rt uri = Some (infoHash t) \<and>
    length (records_of (infoHash t) (history s)) \<le> 1 \<longrightarrow>
      (let s1 = snd (addTorrent rt uri s);
           s2 = snd (addTorrent_callback rt now1 now2 now3 nm iid t s1)
       in fst (addTorrent rt uri s) = AddPending (infoHash t) \<and>
          history s1 = history s \<and> events s1 = events s \<and>
          addTorrent rt uri s1 = (AddNull, console_log (''Torrent already added: '' @ uri) s1) \<and>
          length (records_of (infoHash t) (history s2)) = 1 \<and>
          addTorrent rt uri s2 = (AddNull, console_log (''Torrent already added: '' @ uri) s2)))"
proof (intro conjI impI)
  assume "getTorrent rt s uri \<noteq> None"
  then show "addTorrent rt uri s = (AddNull, console_log (''Torrent already added: '' @ uri) s)"
    by (rule addTorrent_present)
next
  assume a: "getTorrent rt s uri = None \<and> parse_id rt uri = Some (infoHash t) \<and>
    length (records_of (infoHash t) (history s)) \<le> 1"
  define s1 where "s1 = snd (addTorrent rt uri s)"
  define s2 where "s2 = snd (addTorrent_callback rt now1 now2 now3 nm iid t s1)"
  from a have a1: "getTorrent rt s uri = None" and a2: "parse_id rt uri = Some (infoHash t)"
    and a3: "length (records_of (infoHash t) (history s)) \<le> 1" by simp_all
  have 1: "fst (addTorrent rt uri s) = AddPending (infoHash t)"
    using addTorrent_absent(1) [OF a1 a2] .
  have 2: "getTorrent rt s1 uri \<noteq> None"
    unfolding s1_def using addTorrent_absent(2) [OF a1 a2] .
  have 3: "history s1 = history s"
    unfolding s1_def using addTorrent_absent(3) [OF a1 a2] .
  have 4: "events s1 = events s"
    unfolding s1_def using addTorrent_absent(4) [OF a1 a2] .
  have 5: "getTorrent rt s2 uri \<noteq> None"
    unfolding s2_def using a2 2 by (rule addTorrent_callback_present)
  have 6: "length (records_of (infoHash t) (history s2)) = 1"
    unfolding s2_def using a3 by (simp add: addTorrent_callback_records 3)
  have 7: "addTorrent rt uri s1 = (AddNull, console_log (''Torrent already added: '' @ uri) s1)"
    using 2 by (rule addTorrent_present)
  have 8: "addTorrent rt uri s2 = (AddNull, console_log (''Torrent already added: '' @ uri) s2)"
    using 5 by (rule addTorrent_present)
  from 1 3 4 6 7 8 show "let s1 = snd (addTorrent rt uri s);
           s2 = snd (addTorrent_callback rt now1 now2 now3 nm iid t s1)
       in fst (addTorrent rt uri s) = AddPending (infoHash t) \<and>
          history s1 = history s \<and> events s1 = events s \<and>
          addTorrent rt uri s1 = (AddNull, console_log (''Torrent already added: '' @ uri) s1) \<and>
          length (records_of (infoHash t) (history s2)) = 1 \<and>
          addTorrent rt uri s2 = (AddNull, console_log (''Torrent already added: '' @ uri) s2)"
    unfolding Let_def s1_def s2_def by blast
qed

theorem C1_add_present_witness:
  "addTorrent test_runtime test_uri test_service =
     (AddNull, console_log (''Torrent already added: '' @ test_uri) test_service) \<and>
   fst (addTorrent test_runtime test_uri new_service) = AddPending ''abcd'' \<and>
   length (records_of ''abcd''
     (history (snd (addTorrent_callback test_runtime 1700000001000 1700000001000 1700000001000
        (Some ''Movie X'') None (test_torrent\<lparr>ready := True\<rparr>)
        (snd (addTorrent test_runtime test_uri new_service)))))) = 1 \<and>
   fst (addTorrent test_runtime test_uri
     (snd (addTorrent_callback test_runtime 1700000001000 1700000001000 1700000001000
        (Some ''Movie X'') None (test_torrent\<lparr>ready := True\<rparr>)
        (snd (addTorrent test_runtime test_uri new_service))))) = AddNull"
  using
    C1_add_present [of test_runtime test_service test_uri]
    C1_add_present [of test_runtime new_service test_uri "test_torrent\<lparr>ready := True\<rparr>"
      1700000001000 1700000001000 1700000001000 "Some ''Movie X''" None]
  by (simp add: getTorrent_def client_get_def parse_test_uri test_service_def new_service_def
      test_torrent_def records_of_def Let_def)

subsection \<open>The file selected for streaming\<close>

text \<open>
  The left fold of \<open>larger\<close> returns a file of greatest length, and every file after
  it in the list is strictly shorter: among the longest files it is the last one.
\<close>

lemma foldl_larger_last_max:
  "\<exists>i < length (x # xs). foldl larger x xs = (x # xs) ! i \<and>
     (\<forall>j < length (x # xs). file_length ((x # xs) ! j) \<le> file_length ((x # xs) ! i)) \<and>
     (\<forall>j. i < j \<and> j < length (x # xs) \<longrightarrow>
          file_length ((x # xs) ! j) < file_length ((x # xs) ! i))"
proof (induction xs rule: rev_induct)
  case Nil
  then show ?case by simp
next
  case (snoc y xs)
  then obtain i where i: "i < length (x # xs)" "foldl larger x xs = (x # xs) ! i"
    and mx: "\<forall>j < length (x # xs). file_length ((x # xs) ! j) \<le> file_length ((x # xs) ! i)"
    and lst: "\<forall>j. i < j \<and> j < length (x # xs) \<longrightarrow>
      file_length ((x # xs) ! j) < file_length ((x # xs) ! i)"
    by blast
  let ?zs = "x # xs @ [y]"
  have zs: "?zs = (x # xs) @ [y]" by simp
  have nth_old: "?zs ! j = (x # xs) ! j" if "j < length (x # xs)" for j
    using that unfolding zs by (simp only: nth_append if_True)
  have nth_new: "?zs ! length (x # xs) = y"
    unfolding zs by (simp only: nth_append_length)
  show ?case
  proof (cases "file_length ((x # xs) ! i) > file_length y")
    case True
    then have r: "foldl larger x (xs @ [y]) = ?zs ! i"
      using i nth_old [of i] by (simp add: larger_def)
    have "\<forall>j < length ?zs. file_length (?zs ! j) \<le> file_length (?zs ! i)"
    proof (intro allI impI)
      fix j assume "j < length ?zs"
      then consider "j < length (x # xs)" | "j = length (x # xs)" by fastforce
      then show "file_length (?zs ! j) \<le> file_length (?zs ! i)"
      proof cases
        case 1
        with mx i show ?thesis by (simp only: nth_old)
      next
        case 2
        with True i show ?thesis using nth_new nth_old [of i] by simp
      qed
    qed
    moreover have "\<forall>j. i < j \<and> j < length ?zs \<longrightarrow>
        file_length (?zs ! j) < file_length (?zs ! i)"
    proof (intro allI impI)
      fix j assume j: "i < j \<and> j < length ?zs"
      then consider "j < length (x # xs)" | "j = length (x # xs)" by fastforce
      then show "file_length (?zs ! j) < file_length (?zs ! i)"
      proof cases
        case 1
        with lst i j show ?thesis by (simp only: nth_old)
      next
        case 2
        with True i show ?thesis using nth_new nth_old [of i] by simp
      qed
    qed
    moreover have "i < length ?zs" using i by simp
    ultimately show ?thesis using r by blast
  next
    case False
    then have r: "foldl larger x (xs @ [y]) = ?zs ! length (x # xs)"
      using i nth_new by (simp add: larger_def)
    have "\<forall>j < length ?zs. file_length (?zs ! j) \<le> file_length (?zs ! length (x # xs))"
    proof (intro allI impI)
      fix j assume "j < length ?zs"
      then consider "j < length (x # xs)" | "j = length (x # xs)" by fastforce
      then show "file_length (?zs ! j) \<le> file_length (?zs ! length (x # xs))"
      proof cases
        case 1
        with mx have "file_length ((x # xs) ! j) \<le> file_length ((x # xs) ! i)" by blast
        with False 1 show ?thesis using nth_new nth_old [of j] by simp
      next
        case 2
        then show ?thesis by simp
      qed
    qed
    moreover have "\<forall>j. length (x # xs) < j \<and> j < length ?zs \<longrightarrow>
        file_length (?zs ! j) < file_length (?zs ! length (x # xs))"
      by simp
    moreover have "length (x # xs) < length ?zs" by simp
    ultimately show ?thesis using r by blast
  qed
qed

text \<open>
  For a known torrent the function has two outcomes only: \<open>null\<close> while the torrent is
  not ready, and a \<open>TypeError\<close> once it is (from \<open>reduce\<close> on an empty file list, from
  \<open>createServer\<close> otherwise).
\<close>

lemma getLargestFileForStreaming_known:
  "getTorrent rt s ident = Some t \<Longrightarrow>
     getLargestFileForStreaming rt ident s = (if ready t then Inl TypeError else Inr None)"
  by (simp add: getLargestFileForStreaming_def reduce1_def file_createServer_def
      split: list.splits)

text \<open>
  C8: for a known transfer whose metadata is available, the function selects the file of
  greatest byte length, the first one on a tie, and returns a stream locator for it. The
  code breaks this. For the ready torrent with the files \<open>a.mkv\<close> (10 bytes), \<open>b.mkv\<close>
  (10 bytes) and \<open>c.txt\<close> (1 byte) the reduction selects \<open>b.mkv\<close>, the last of the two
  longest files and not the first, and the call of \<open>createServer\<close> on it throws: the
  promise is rejected with a \<open>TypeError\<close> and no file or locator is returned.
\<close>

theorem C8_largest_file_rejected:
  "getTorrent test_runtime test_service test_uri
     = Some (test_torrent\<lparr>ready := True, files := test_files\<rparr>) \<and>
   getLargestFileForStreaming test_runtime test_uri test_service = Inl TypeError \<and>
   reduce1 larger test_files = Inr \<lparr>file_name = ''b.mkv'', file_length = 10\<rparr> \<and>
   largest_first test_files = Some \<lparr>file_name = ''a.mkv'', file_length = 10\<rparr>"
  by (simp add: getLargestFileForStreaming_def getTorrent_def client_get_def parse_test_uri
      test_service_def new_service_def test_torrent_def fresh_torrent_def test_files_def
      reduce1_def larger_def largest_first_def file_createServer_def)

end
